theory Spec2Isabelle
  imports Main
begin

section \<open>JavaScript values\<close>

text \<open>
  The handlers of \<^verbatim>\<open>NocoDBServer\<close> take their arguments as \<^verbatim>\<open>any\<close> and read
  the remote responses as parsed JSON. A value is therefore one of JavaScript's JSON-shaped
  values, with \<^verbatim>\<open>undefined\<close> for what a missing property reads as.

  A number is kept as the text JavaScript writes for it (\<^verbatim>\<open>0\<close>, \<^verbatim>\<open>100\<close>,
  \<^verbatim>\<open>-3\<close>, \<^verbatim>\<open>9.99\<close>, \<^verbatim>\<open>1e+21\<close>): the handlers never calculate with a number,
  they test it for truth, write it into a text and pass it on, and for each of these the text
  is enough. An object is the list of its own properties in insertion order, and a key is
  looked up at its first binding. A string is a list of bytes, so its length and its indices
  are those of JavaScript for ASCII text. The messages of the language's own
  \<^verbatim>\<open>TypeError\<close>s are written as V8 words them.
\<close>

datatype jsval =
    JUndefined
  | JNull
  | JBool bool
  | JNum string
  | JStr string
  | JArr "jsval list"
  | JObj "(string \<times> jsval) list"

text \<open>
  \<^verbatim>\<open>v ? a : b\<close>, \<^verbatim>\<open>v || d\<close>: the truthiness of a value. Zero, also the negative
  zero, is written \<^verbatim>\<open>0\<close>.
\<close>

fun truthy :: "jsval \<Rightarrow> bool" where
  "truthy JUndefined = False"
| "truthy JNull = False"
| "truthy (JBool b) = b"
| "truthy (JNum t) = (t \<noteq> ''0'' \<and> t \<noteq> ''NaN'')"
| "truthy (JStr s) = (s \<noteq> [])"
| "truthy (JArr xs) = True"
| "truthy (JObj kvs) = True"

fun nullish :: "jsval \<Rightarrow> bool" where
  "nullish JUndefined = True"
| "nullish JNull = True"
| "nullish v = False"

subsection \<open>Lengths and indices as text\<close>

definition digit_char :: "nat \<Rightarrow> char" where
  "digit_char d = ''0123456789'' ! d"

text \<open>The decimal digits of a natural number, the last digit peeled off at each step.\<close>

function decimal :: "nat \<Rightarrow> string" where
  "decimal n = (if 10 \<le> n then decimal (n div 10) else []) @ [digit_char (n mod 10)]"
  by pat_completeness auto
termination
  by (relation "measure (\<lambda>n. n)") auto

declare decimal.simps [simp del]

text \<open>The length of an array or a string, as the number it is.\<close>

definition length_number :: "'a list \<Rightarrow> jsval" where
  "length_number xs = JNum (decimal (length xs))"

subsection \<open>Errors\<close>

datatype error_code = MethodNotFound | InvalidRequest | InternalError

text \<open>
  What a \<^verbatim>\<open>throw\<close> or a rejected promise carries: a plain \<^verbatim>\<open>Error\<close>, the
  protocol's \<^verbatim>\<open>McpError\<close>, the \<^verbatim>\<open>TypeError\<close> of the language itself, and the
  error the HTTP client rejects with.
\<close>

datatype js_error =
    Error string
  | McpError error_code string
  | TypeError string
  | AxiosError string

fun code_text :: "error_code \<Rightarrow> string" where
  "code_text MethodNotFound = ''-32601''"
| "code_text InvalidRequest = ''-32600''"
| "code_text InternalError = ''-32603''"

fun message :: "js_error \<Rightarrow> string" where
  "message (Error m) = m"
| "message (McpError c m) = ''MCP error '' @ code_text c @ '': '' @ m"
| "message (TypeError m) = m"
| "message (AxiosError m) = m"

fun is_McpError :: "js_error \<Rightarrow> bool" where
  "is_McpError (McpError c m) = True"
| "is_McpError e = False"

text \<open>A step that may throw, followed by what is done with its value.\<close>

definition and_then :: "js_error + 'a \<Rightarrow> ('a \<Rightarrow> js_error + 'b) \<Rightarrow> js_error + 'b" where
  "and_then r f = (case r of Inl e \<Rightarrow> Inl e | Inr x \<Rightarrow> f x)"

subsection \<open>Text of a value\<close>

text \<open>Joining the pieces of a list with a separator, as \<^verbatim>\<open>Array.prototype.join\<close>.\<close>

fun join :: "string \<Rightarrow> string list \<Rightarrow> string" where
  "join sep [] = []"
| "join sep [s] = s"
| "join sep (s # t # ts) = s @ sep @ join sep (t # ts)"

definition not_primitive :: js_error where
  "not_primitive = TypeError ''Cannot convert object to primitive value''"

text \<open>
  \<^verbatim>\<open>`${v}`\<close>: the string a template literal puts in for a value, or the
  \<^verbatim>\<open>TypeError\<close> it throws. An object that has no \<^verbatim>\<open>toString\<close> of its own is
  written by the one it inherits; an object that has one of its own, which coming from JSON
  is not a function, cannot be written: the inherited \<^verbatim>\<open>valueOf\<close> is tried next and
  gives back the object. An array is its elements joined by commas, with nothing for a null
  or undefined element, and cannot be written when one of its elements cannot.
\<close>

fun js_toString :: "jsval \<Rightarrow> js_error + string"
  and js_elements :: "jsval list \<Rightarrow> js_error + string list" where
  "js_toString JUndefined = Inr ''undefined''"
| "js_toString JNull = Inr ''null''"
| "js_toString (JBool b) = Inr (if b then ''true'' else ''false'')"
| "js_toString (JNum t) = Inr t"
| "js_toString (JStr s) = Inr s"
| "js_toString (JArr xs) =
     (case js_elements xs of Inl e \<Rightarrow> Inl e | Inr ss \<Rightarrow> Inr (join '','' ss))"
| "js_toString (JObj kvs) =
     (if ''toString'' \<in> set (map fst kvs) then Inl not_primitive else Inr ''[object Object]'')"
| "js_elements [] = Inr []"
| "js_elements (x # xs) =
     (case (if nullish x then Inr [] else js_toString x) of
        Inl e \<Rightarrow> Inl e
      | Inr s \<Rightarrow> (case js_elements xs of Inl e \<Rightarrow> Inl e | Inr ss \<Rightarrow> Inr (s # ss)))"

subsection \<open>Reading properties\<close>

text \<open>
  The own properties of a value: the bindings of an object, the length and the indexed
  elements of an array or a string. Everything else reads as \<^verbatim>\<open>undefined\<close>; none of
  the names the handlers read is a name that objects, arrays or strings inherit.
\<close>

definition indexed :: "'a list \<Rightarrow> (string \<times> 'a) list" where
  "indexed xs = zip (map decimal [0..<length xs]) xs"

fun get_prop :: "jsval \<Rightarrow> string \<Rightarrow> jsval" where
  "get_prop (JObj kvs) k = (case map_of kvs k of None \<Rightarrow> JUndefined | Some v \<Rightarrow> v)"
| "get_prop (JArr xs) k =
     (if k = ''length'' then length_number xs
      else case map_of (indexed xs) k of None \<Rightarrow> JUndefined | Some v \<Rightarrow> v)"
| "get_prop (JStr s) k =
     (if k = ''length'' then length_number s
      else case map_of (indexed s) k of None \<Rightarrow> JUndefined | Some c \<Rightarrow> JStr [c])"
| "get_prop v k = JUndefined"

definition apostrophe :: string where
  "apostrophe = [CHR 0x27]"

text \<open>How an error message names null and undefined.\<close>

definition nullish_name :: "jsval \<Rightarrow> string" where
  "nullish_name v = (if v = JNull then ''null'' else ''undefined'')"

text \<open>\<^verbatim>\<open>v.k\<close>: reading a property of null or undefined throws.\<close>

definition member :: "jsval \<Rightarrow> string \<Rightarrow> js_error + jsval" where
  "member v k =
     (if nullish v
      then Inl (TypeError (''Cannot read properties of '' @ nullish_name v @ '' (reading ''
                            @ apostrophe @ k @ apostrophe @ '')''))
      else Inr (get_prop v k))"

text \<open>\<^verbatim>\<open>const { k = d } = args\<close>: the default stands in for an undefined property only.\<close>

definition dflt :: "jsval \<Rightarrow> jsval \<Rightarrow> jsval" where
  "dflt v d = (if v = JUndefined then d else v)"

subsection \<open>JSON.stringify, Object.keys, for-of\<close>

definition hex_digit :: "nat \<Rightarrow> char" where
  "hex_digit d = ''0123456789abcdef'' ! d"

definition json_escape :: "char \<Rightarrow> string" where
  "json_escape c =
     (if c = CHR 0x22 then [CHR 0x5C, CHR 0x22]
      else if c = CHR 0x5C then [CHR 0x5C, CHR 0x5C]
      else if c = CHR 0x08 then [CHR 0x5C, CHR ''b'']
      else if c = CHR 0x09 then [CHR 0x5C, CHR ''t'']
      else if c = CHR 0x0A then [CHR 0x5C, CHR ''n'']
      else if c = CHR 0x0C then [CHR 0x5C, CHR ''f'']
      else if c = CHR 0x0D then [CHR 0x5C, CHR ''r'']
      else if (of_char c :: nat) < 32
        then [CHR 0x5C] @ ''u00'' @ [hex_digit (of_char c div 16), hex_digit (of_char c mod 16)]
      else [c])"

definition json_quote :: "string \<Rightarrow> string" where
  "json_quote s = [CHR 0x22] @ concat (map json_escape s) @ [CHR 0x22]"

definition spaces :: "nat \<Rightarrow> string" where
  "spaces n = replicate n (CHR '' '')"

text \<open>
  The brackets around the serialised members of an array or object: nothing between them
  when there are no members, one line when the gap is empty, otherwise one member per
  line, indented.
\<close>

definition json_wrap :: "string \<Rightarrow> string \<Rightarrow> nat \<Rightarrow> nat \<Rightarrow> string list \<Rightarrow> string" where
  "json_wrap l r gap ind parts =
     (if parts = [] then l @ r
      else if gap = 0 then l @ join '','' parts @ r
      else l @ [CHR 0x0A] @ spaces (ind + gap)
             @ join ('','' @ [CHR 0x0A] @ spaces (ind + gap)) parts
             @ [CHR 0x0A] @ spaces ind @ r)"

text \<open>A number in JSON: its text, and \<^verbatim>\<open>null\<close> for what is not finite.\<close>

definition json_number :: "string \<Rightarrow> string" where
  "json_number t =
     (if t = ''NaN'' \<or> t = ''Infinity'' \<or> t = ''-Infinity'' then ''null'' else t)"

text \<open>
  \<^verbatim>\<open>JSON.stringify(v, null, gap)\<close> at indentation \<open>ind\<close>; \<open>None\<close> is the
  \<^verbatim>\<open>undefined\<close> it returns for an undefined value. An undefined array element is
  written \<^verbatim>\<open>null\<close>, an undefined property is left out. A \<^verbatim>\<open>toJSON\<close> that came
  from JSON is not a function and is not called.
\<close>

fun json_value :: "nat \<Rightarrow> nat \<Rightarrow> jsval \<Rightarrow> string option"
  and json_elements :: "nat \<Rightarrow> nat \<Rightarrow> jsval list \<Rightarrow> string list"
  and json_properties :: "nat \<Rightarrow> nat \<Rightarrow> (string \<times> jsval) list \<Rightarrow> string list" where
  "json_value gap ind JUndefined = None"
| "json_value gap ind JNull = Some ''null''"
| "json_value gap ind (JBool b) = Some (if b then ''true'' else ''false'')"
| "json_value gap ind (JNum t) = Some (json_number t)"
| "json_value gap ind (JStr s) = Some (json_quote s)"
| "json_value gap ind (JArr xs) =
     Some (json_wrap ''['' '']'' gap ind (json_elements gap (ind + gap) xs))"
| "json_value gap ind (JObj kvs) =
     Some (json_wrap ''{'' ''}'' gap ind (json_properties gap (ind + gap) kvs))"
| "json_elements gap ind [] = []"
| "json_elements gap ind (x # xs) =
     (case json_value gap ind x of None \<Rightarrow> ''null'' | Some s \<Rightarrow> s) # json_elements gap ind xs"
| "json_properties gap ind [] = []"
| "json_properties gap ind ((k, v) # kvs) =
     (case json_value gap ind v of
        None \<Rightarrow> json_properties gap ind kvs
      | Some s \<Rightarrow> (json_quote k @ '':'' @ (if gap = 0 then [] else '' '') @ s)
                   # json_properties gap ind kvs)"

definition JSON_stringify :: "nat \<Rightarrow> jsval \<Rightarrow> string option" where
  "JSON_stringify gap v = json_value gap 0 v"

text \<open>A possibly undefined string put into a template literal, or stored as a value.\<close>

definition template :: "string option \<Rightarrow> string" where
  "template t = (case t of None \<Rightarrow> ''undefined'' | Some s \<Rightarrow> s)"

definition string_value :: "string option \<Rightarrow> jsval" where
  "string_value t = (case t of None \<Rightarrow> JUndefined | Some s \<Rightarrow> JStr s)"

fun Object_keys :: "jsval \<Rightarrow> js_error + string list" where
  "Object_keys JUndefined = Inl (TypeError ''Cannot convert undefined or null to object'')"
| "Object_keys JNull = Inl (TypeError ''Cannot convert undefined or null to object'')"
| "Object_keys (JObj kvs) = Inr (map fst kvs)"
| "Object_keys (JArr xs) = Inr (map fst (indexed xs))"
| "Object_keys (JStr s) = Inr (map fst (indexed s))"
| "Object_keys v = Inr []"

text \<open>\<^verbatim>\<open>for (const x of v)\<close>: arrays and strings are iterable, nothing else is.\<close>

fun iterate :: "string \<Rightarrow> jsval \<Rightarrow> js_error + jsval list" where
  "iterate name (JArr xs) = Inr xs"
| "iterate name (JStr s) = Inr (map (\<lambda>c. JStr [c]) s)"
| "iterate name v = Inl (TypeError (name @ '' is not iterable''))"

text \<open>\<^verbatim>\<open>const { k, ... } = args\<close> throws on null and undefined, naming the first property.\<close>

definition destructuring :: "jsval \<Rightarrow> string \<Rightarrow> js_error + unit" where
  "destructuring args k =
     (if nullish args
      then Inl (TypeError (''Cannot destructure property '' @ apostrophe @ k @ apostrophe
                            @ '' of '' @ apostrophe @ ''args'' @ apostrophe @ '' as it is ''
                            @ nullish_name args @ ''.''))
      else Inr ())"

section \<open>The HTTP client and the handlers' effects\<close>

datatype http_verb = GET | POST | PATCH | DELETE

text \<open>
  One call of the axios instance: the HTTP method, the path, the \<^verbatim>\<open>params\<close> of the request
  configuration (empty when none is given) and the body (undefined when none is given).
\<close>

record request =
  http_method :: http_verb
  url :: string
  params :: "(string \<times> jsval) list"
  body :: jsval

text \<open>
  The remote service, as a stub: given the calls made so far and the next call, either the
  message of the error the call is rejected with, or the \<^verbatim>\<open>data\<close> of its response.
\<close>

type_synonym client = "request list \<Rightarrow> request \<Rightarrow> string + jsval"

text \<open>
  An asynchronous method: from the calls made so far to what it throws or returns, and the
  calls made once it has finished.
\<close>

type_synonym 'a action = "request list \<Rightarrow> (js_error + 'a) \<times> request list"

definition ret :: "'a \<Rightarrow> 'a action" where
  "ret x = (\<lambda>tr. (Inr x, tr))"

definition throw :: "js_error \<Rightarrow> 'a action" where
  "throw e = (\<lambda>tr. (Inl e, tr))"

definition lift :: "js_error + 'a \<Rightarrow> 'a action" where
  "lift r = (\<lambda>tr. (r, tr))"

definition bind :: "'a action \<Rightarrow> ('a \<Rightarrow> 'b action) \<Rightarrow> 'b action" where
  "bind m f = (\<lambda>tr. case m tr of (Inl e, tr') \<Rightarrow> (Inl e, tr') | (Inr x, tr') \<Rightarrow> f x tr')"

definition try_catch :: "'a action \<Rightarrow> (js_error \<Rightarrow> 'a action) \<Rightarrow> 'a action" where
  "try_catch m h = (\<lambda>tr. case m tr of (Inl e, tr') \<Rightarrow> h e tr' | (Inr x, tr') \<Rightarrow> (Inr x, tr'))"

text \<open>
  A call of \<^verbatim>\<open>axiosInstance.get\<close>, \<^verbatim>\<open>post\<close>, \<^verbatim>\<open>patch\<close> or \<^verbatim>\<open>delete\<close>,
  awaited: the call is added to the calls made, and the answer is the response's data or
  the error thrown.
\<close>

definition http :: "client \<Rightarrow> request \<Rightarrow> jsval action" where
  "http c rq = (\<lambda>tr. (case c tr rq of Inl m \<Rightarrow> Inl (AxiosError m) | Inr d \<Rightarrow> Inr d, tr @ [rq]))"

section \<open>Results and configuration\<close>

text \<open>
  What a handler returns: blocks of content, each with its \<^verbatim>\<open>type\<close> and its
  \<^verbatim>\<open>text\<close> (undefined, here \<open>None\<close>, when it is the \<^verbatim>\<open>JSON.stringify\<close> of
  an undefined value), and \<^verbatim>\<open>isError\<close>, false when the property is absent.
\<close>

record content_block =
  type :: string
  text' :: "string option"

record tool_result =
  content :: "content_block list"
  isError :: bool

text \<open>A result with one text block and no \<^verbatim>\<open>isError\<close> property.\<close>

definition text_result :: "string option \<Rightarrow> tool_result" where
  "text_result t = \<lparr>content = [\<lparr>type = ''text'', text' = t\<rparr>], isError = False\<rparr>"

text \<open>
  The two constants read from the environment that the handlers use: the API version, which
  has a default, and the base id, which may be undefined.
\<close>

record config =
  API_VERSION :: string
  NOCODB_BASE_ID :: "string option"

section \<open>The handlers\<close>

text \<open>
  Each private method of \<^verbatim>\<open>NocoDBServer\<close>, in the order of the class. An
  \<^verbatim>\<open>await\<close> is sequential composition, a \<^verbatim>\<open>try\<close> with its \<^verbatim>\<open>catch\<close> is
  \<open>try_catch\<close>, and the destructuring of the arguments happens before the
  \<^verbatim>\<open>try\<close>, as in the source. The arguments of a call of the axios instance are
  evaluated before the call is made: each method has its request, which is what that
  evaluation gives, a request or the error thrown by a template literal. What the methods
  write to the console is left out, except where writing it can throw.
\<close>

definition listProjects_call :: request where
  "listProjects_call =
     \<lparr>http_method = GET, url = ''/api/v1/db/meta/projects'', params = [], body = JUndefined\<rparr>"

definition listProjects :: "client \<Rightarrow> tool_result action" where
  "listProjects c =
     try_catch
       (bind (http c listProjects_call) (\<lambda>data.
          ret (text_result (JSON_stringify 2 data))))
       (\<lambda>error. throw (Error (''Failed to list projects: '' @ message error)))"

definition createProject_call :: "jsval \<Rightarrow> request" where
  "createProject_call args =
     (let title = get_prop args ''title'';
          description = dflt (get_prop args ''description'') (JStr [])
      in \<lparr>http_method = POST, url = ''/api/v1/db/meta/projects'', params = [],
          body = JObj [(''title'', title), (''description'', description)]\<rparr>)"

definition createProject :: "client \<Rightarrow> jsval \<Rightarrow> tool_result action" where
  "createProject c args =
     bind (lift (destructuring args ''title'')) (\<lambda>_.
       try_catch
         (bind (http c (createProject_call args)) (\<lambda>data.
            ret (text_result
              (Some (''Project created successfully: '' @ template (JSON_stringify 2 data))))))
         (\<lambda>error. throw (Error (''Failed to create project: '' @ message error))))"

definition listTables_call :: "jsval \<Rightarrow> js_error + request" where
  "listTables_call args =
     and_then (js_toString (get_prop args ''projectId'')) (\<lambda>projectId.
       Inr \<lparr>http_method = GET,
            url = ''/api/v1/db/meta/projects/'' @ projectId @ ''/tables'',
            params = [], body = JUndefined\<rparr>)"

definition listTables :: "client \<Rightarrow> jsval \<Rightarrow> tool_result action" where
  "listTables c args =
     bind (lift (destructuring args ''projectId'')) (\<lambda>_.
       try_catch
         (bind (lift (listTables_call args)) (\<lambda>rq.
          bind (http c rq) (\<lambda>data.
            ret (text_result (JSON_stringify 2 data)))))
         (\<lambda>error. throw (Error (''Failed to list tables: '' @ message error))))"

definition createTable_call :: "jsval \<Rightarrow> js_error + request" where
  "createTable_call args =
     and_then (js_toString (get_prop args ''projectId'')) (\<lambda>projectId.
       Inr \<lparr>http_method = POST,
            url = ''/api/v1/db/meta/projects/'' @ projectId @ ''/tables'',
            params = [],
            body = JObj [(''table_name'', get_prop args ''tableName'')]\<rparr>)"

text \<open>The body of one column-add call.\<close>

definition column_body :: "jsval \<Rightarrow> js_error + jsval" where
  "column_body column =
     and_then (member column ''column_name'') (\<lambda>column_name.
       Inr (JObj ([(''column_name'', column_name),
                   (''title'', column_name),
                   (''uidt'', get_prop column ''column_type'')]
                  @ (if truthy (get_prop column ''is_primary'')
                     then [(''pk'', JBool True)] else []))))"

text \<open>One column-add call: the path with the id of the table first, then the body.\<close>

definition column_call :: "jsval \<Rightarrow> jsval \<Rightarrow> js_error + request" where
  "column_call tableId column =
     and_then (js_toString tableId) (\<lambda>t.
     and_then (column_body column) (\<lambda>b.
       Inr \<lparr>http_method = POST,
            url = ''/api/v1/db/meta/tables/'' @ t @ ''/columns'',
            params = [], body = b\<rparr>))"

text \<open>The loop over the columns: one call each, in order, stopping at the first throw.\<close>

fun addColumns :: "client \<Rightarrow> jsval \<Rightarrow> jsval list \<Rightarrow> unit action" where
  "addColumns c tableId [] = ret ()"
| "addColumns c tableId (column # columns) =
     bind (lift (column_call tableId column)) (\<lambda>rq.
     bind (http c rq) (\<lambda>_. addColumns c tableId columns))"

text \<open>The sentence \<^verbatim>\<open>createTable\<close> returns, written after the loop.\<close>

definition createTable_text :: "jsval \<Rightarrow> js_error + string" where
  "createTable_text args =
     and_then (js_toString (get_prop args ''tableName'')) (\<lambda>tableName.
     and_then (js_toString (get_prop (get_prop args ''columns'') ''length'')) (\<lambda>n.
       Inr (''Table '' @ apostrophe @ tableName @ apostrophe
            @ '' created successfully with '' @ n @ '' columns.'')))"

definition createTable :: "client \<Rightarrow> jsval \<Rightarrow> tool_result action" where
  "createTable c args =
     bind (lift (destructuring args ''projectId'')) (\<lambda>_.
       try_catch
         (bind (lift (createTable_call args)) (\<lambda>rq.
          bind (http c rq) (\<lambda>data.
          bind (lift (member data ''id'')) (\<lambda>tableId.
          bind (lift (iterate ''columns'' (get_prop args ''columns''))) (\<lambda>cols.
          bind (addColumns c tableId cols) (\<lambda>_.
          bind (lift (createTable_text args)) (\<lambda>t.
            ret (text_result (Some t)))))))))
         (\<lambda>error. throw (Error (''Failed to create table: '' @ message error))))"

text \<open>
  The query parameters are built first, the keys of the filters taken for it; then the path
  is written.
\<close>

definition queryTable_call :: "jsval \<Rightarrow> js_error + request" where
  "queryTable_call args =
     (let filters = dflt (get_prop args ''filters'') (JObj []);
          limit = dflt (get_prop args ''limit'') (JNum ''100'');
          offset = dflt (get_prop args ''offset'') (JNum ''0'')
      in and_then (Object_keys filters) (\<lambda>keys.
           let queryParams =
                 [(''limit'', limit), (''offset'', offset)]
                 @ (if length keys > 0
                    then [(''where'', string_value (JSON_stringify 0 filters))] else [])
           in and_then (js_toString (get_prop args ''projectId'')) (\<lambda>projectId.
              and_then (js_toString (get_prop args ''tableName'')) (\<lambda>tableName.
                Inr \<lparr>http_method = GET,
                     url = ''/api/v1/db/data/noco/'' @ projectId @ ''/'' @ tableName,
                     params = queryParams, body = JUndefined\<rparr>))))"

definition queryTable :: "client \<Rightarrow> jsval \<Rightarrow> tool_result action" where
  "queryTable c args =
     bind (lift (destructuring args ''projectId'')) (\<lambda>_.
       try_catch
         (bind (lift (queryTable_call args)) (\<lambda>rq.
          bind (http c rq) (\<lambda>data.
            ret (text_result (JSON_stringify 2 data)))))
         (\<lambda>error. throw (Error (''Failed to query table: '' @ message error))))"

definition insertRecord_call :: "jsval \<Rightarrow> js_error + request" where
  "insertRecord_call args =
     and_then (js_toString (get_prop args ''projectId'')) (\<lambda>projectId.
     and_then (js_toString (get_prop args ''tableName'')) (\<lambda>tableName.
       Inr \<lparr>http_method = POST,
            url = ''/api/v1/db/data/noco/'' @ projectId @ ''/'' @ tableName,
            params = [], body = get_prop args ''data''\<rparr>))"

definition insertRecord :: "client \<Rightarrow> jsval \<Rightarrow> tool_result action" where
  "insertRecord c args =
     bind (lift (destructuring args ''projectId'')) (\<lambda>_.
       try_catch
         (bind (lift (insertRecord_call args)) (\<lambda>rq.
          bind (http c rq) (\<lambda>data.
            ret (text_result
              (Some (''Record inserted successfully: '' @ template (JSON_stringify 2 data)))))))
         (\<lambda>error. throw (Error (''Failed to insert record: '' @ message error))))"

definition updateRecord_call :: "jsval \<Rightarrow> js_error + request" where
  "updateRecord_call args =
     and_then (js_toString (get_prop args ''projectId'')) (\<lambda>projectId.
     and_then (js_toString (get_prop args ''tableName'')) (\<lambda>tableName.
     and_then (js_toString (get_prop args ''recordId'')) (\<lambda>recordId.
       Inr \<lparr>http_method = PATCH,
            url = ''/api/v1/db/data/noco/'' @ projectId @ ''/'' @ tableName @ ''/'' @ recordId,
            params = [], body = get_prop args ''data''\<rparr>)))"

definition updateRecord :: "client \<Rightarrow> jsval \<Rightarrow> tool_result action" where
  "updateRecord c args =
     bind (lift (destructuring args ''projectId'')) (\<lambda>_.
       try_catch
         (bind (lift (updateRecord_call args)) (\<lambda>rq.
          bind (http c rq) (\<lambda>data.
            ret (text_result
              (Some (''Record updated successfully: '' @ template (JSON_stringify 2 data)))))))
         (\<lambda>error. throw (Error (''Failed to update record: '' @ message error))))"

definition deleteRecord_call :: "jsval \<Rightarrow> js_error + request" where
  "deleteRecord_call args =
     and_then (js_toString (get_prop args ''projectId'')) (\<lambda>projectId.
     and_then (js_toString (get_prop args ''tableName'')) (\<lambda>tableName.
     and_then (js_toString (get_prop args ''recordId'')) (\<lambda>recordId.
       Inr \<lparr>http_method = DELETE,
            url = ''/api/v1/db/data/noco/'' @ projectId @ ''/'' @ tableName @ ''/'' @ recordId,
            params = [], body = JUndefined\<rparr>)))"

definition deleteRecord :: "client \<Rightarrow> jsval \<Rightarrow> tool_result action" where
  "deleteRecord c args =
     bind (lift (destructuring args ''projectId'')) (\<lambda>_.
       try_catch
         (bind (lift (deleteRecord_call args)) (\<lambda>rq.
          bind (http c rq) (\<lambda>_.
            ret (text_result (Some ''Record deleted successfully.'')))))
         (\<lambda>error. throw (Error (''Failed to delete record: '' @ message error))))"

text \<open>
  The two requests of \<^verbatim>\<open>queryTableByName\<close>. The name of the table is written into a
  line for the console before the first path is written, and into the second path again.
\<close>

definition primary_request :: "config \<Rightarrow> jsval \<Rightarrow> js_error + request" where
  "primary_request cfg args =
     and_then (js_toString (get_prop args ''tableName'')) (\<lambda>tableName.
       Inr \<lparr>http_method = GET,
            url = ''/api/'' @ API_VERSION cfg @ ''/tables/'' @ tableName @ ''/records'',
            params = [(''limit'', dflt (get_prop args ''limit'') (JNum ''100'')),
                      (''baseId'', string_value (NOCODB_BASE_ID cfg))],
            body = JUndefined\<rparr>)"

definition secondary_request :: "config \<Rightarrow> jsval \<Rightarrow> js_error + request" where
  "secondary_request cfg args =
     and_then (js_toString (get_prop args ''tableName'')) (\<lambda>tableName.
       Inr \<lparr>http_method = GET,
            url = ''/api/'' @ API_VERSION cfg @ ''/bases/'' @ template (NOCODB_BASE_ID cfg)
                  @ ''/tables/'' @ tableName @ ''/records'',
            params = [(''limit'', dflt (get_prop args ''limit'') (JNum ''100''))],
            body = JUndefined\<rparr>)"

text \<open>
  The lines that follow each of the two requests: the two counts read from the response,
  and the sentence written from them.
\<close>

definition recordCount :: "jsval \<Rightarrow> jsval" where
  "recordCount data =
     (if truthy (get_prop data ''list'') then get_prop (get_prop data ''list'') ''length''
      else JNum ''0'')"

definition totalCount :: "jsval \<Rightarrow> jsval" where
  "totalCount data =
     (if truthy (get_prop data ''pageInfo'')
      then get_prop (get_prop data ''pageInfo'') ''totalRows''
      else recordCount data)"

definition summary_text :: "jsval \<Rightarrow> jsval \<Rightarrow> js_error + string" where
  "summary_text tableName data =
     and_then (js_toString tableName) (\<lambda>name.
     and_then (js_toString (totalCount data)) (\<lambda>total.
     and_then (js_toString (recordCount data)) (\<lambda>retrieved.
       Inr (''Table '' @ name @ '' contains '' @ total @ '' total records. Retrieved ''
            @ retrieved @ '' records.''))))"

definition countSummary :: "jsval \<Rightarrow> jsval \<Rightarrow> tool_result action" where
  "countSummary tableName data =
     bind (lift (member data ''list'')) (\<lambda>_.
     bind (lift (summary_text tableName data)) (\<lambda>t.
       ret (text_result (Some t))))"

definition queryTableByName :: "config \<Rightarrow> client \<Rightarrow> jsval \<Rightarrow> tool_result action" where
  "queryTableByName cfg c args =
     bind (lift (destructuring args ''tableName'')) (\<lambda>_.
       try_catch
         (bind (lift (primary_request cfg args)) (\<lambda>rq.
          bind (http c rq) (countSummary (get_prop args ''tableName''))))
         (\<lambda>error.
            try_catch
              (bind (lift (secondary_request cfg args)) (\<lambda>rq.
               bind (http c rq) (countSummary (get_prop args ''tableName''))))
              (\<lambda>alternativeError.
                 throw (Error (''Failed to query table by name: '' @ message error
                               @ ''. Alternative approach also failed: ''
                               @ message alternativeError)))))"

section \<open>The two entry points\<close>

text \<open>
  The handler registered for tool calls in \<^verbatim>\<open>setupToolHandlers\<close>: the switch on the
  tool's name, and the catch around it that lets an \<^verbatim>\<open>McpError\<close> through and turns
  every other error into a result flagged as an error.
\<close>

definition error_result :: "js_error \<Rightarrow> tool_result" where
  "error_result error =
     \<lparr>content = [\<lparr>type = ''text'', text' = Some (''Error: '' @ message error)\<rparr>],
      isError = True\<rparr>"

definition callTool :: "config \<Rightarrow> client \<Rightarrow> string \<Rightarrow> jsval \<Rightarrow> tool_result action" where
  "callTool cfg c toolName arguments =
     (let args = (if truthy arguments then arguments else JObj [])
      in try_catch
           (if toolName = ''list_projects'' then listProjects c
            else if toolName = ''create_project'' then createProject c args
            else if toolName = ''list_tables'' then listTables c args
            else if toolName = ''create_table'' then createTable c args
            else if toolName = ''query_table'' then queryTable c args
            else if toolName = ''insert_record'' then insertRecord c args
            else if toolName = ''update_record'' then updateRecord c args
            else if toolName = ''delete_record'' then deleteRecord c args
            else if toolName = ''query_table_by_name'' then queryTableByName cfg c args
            else throw (McpError MethodNotFound (''Unknown tool: '' @ toolName)))
           (\<lambda>error. if is_McpError error then throw error else ret (error_result error)))"

text \<open>
  \<^verbatim>\<open>executeCommand\<close>: the switch on \<^verbatim>\<open>comando.action\<close>, inside a catch that logs
  and throws the error again.
\<close>

definition executeCommand :: "config \<Rightarrow> client \<Rightarrow> jsval \<Rightarrow> tool_result action" where
  "executeCommand cfg c comando =
     try_catch
       (bind (lift (member comando ''action'')) (\<lambda>action.
          let params = get_prop comando ''params''
          in if action = JStr ''list_projects'' then listProjects c
             else if action = JStr ''list_tables'' then listTables c params
             else if action = JStr ''query_table'' then queryTable c params
             else if action = JStr ''insert_record'' then insertRecord c params
             else if action = JStr ''update_record'' then updateRecord c params
             else if action = JStr ''delete_record'' then deleteRecord c params
             else if action = JStr ''query_table_by_name'' then queryTableByName cfg c params
             else bind (lift (js_toString action)) (\<lambda>name.
                    throw (Error (''Comando desconhecido: '' @ name)))))
       (\<lambda>error. throw error)"

text \<open>The names the tool-call switch knows, in its order.\<close>

definition tool_names :: "string list" where
  "tool_names =
     [''list_projects'', ''create_project'', ''list_tables'', ''create_table'', ''query_table'',
      ''insert_record'', ''update_record'', ''delete_record'', ''query_table_by_name'']"


text \<open>The method the tool-call switch runs for a name, if it knows the name.\<close>

definition handler :: "config \<Rightarrow> client \<Rightarrow> string \<Rightarrow> (jsval \<Rightarrow> tool_result action) option" where
  "handler cfg c toolName =
     (if toolName = ''list_projects'' then Some (\<lambda>args. listProjects c)
      else if toolName = ''create_project'' then Some (createProject c)
      else if toolName = ''list_tables'' then Some (listTables c)
      else if toolName = ''create_table'' then Some (createTable c)
      else if toolName = ''query_table'' then Some (queryTable c)
      else if toolName = ''insert_record'' then Some (insertRecord c)
      else if toolName = ''update_record'' then Some (updateRecord c)
      else if toolName = ''delete_record'' then Some (deleteRecord c)
      else if toolName = ''query_table_by_name'' then Some (queryTableByName cfg c)
      else None)"



section \<open>Words for the statements\<close>


definition properties :: "jsval \<Rightarrow> (string \<times> jsval) list" where
  "properties v = (case v of JObj kvs \<Rightarrow> kvs | _ \<Rightarrow> [])"


section \<open>Example configurations, clients and arguments\<close>

definition example_config :: config where
  "example_config = \<lparr>API_VERSION = ''v2'', NOCODB_BASE_ID = Some ''b1''\<rparr>"

text \<open>A remote service that rejects every call.\<close>

definition unreachable_client :: client where
  "unreachable_client = (\<lambda>h rq. Inl ''connect ECONNREFUSED'')"

text \<open>A remote service that answers every call with an empty object.\<close>

definition empty_object_client :: client where
  "empty_object_client = (\<lambda>h rq. Inr (JObj []))"

text \<open>A remote service whose first answer is the JSON text \<^verbatim>\<open>null\<close>, and that rejects every later call.\<close>

definition null_then_404_client :: client where
  "null_then_404_client =
     (\<lambda>h rq. if h = [] then Inr JNull else Inl ''Request failed with status code 404'')"

text \<open>A remote service that rejects the first call and answers every later one with \<^verbatim>\<open>null\<close>.\<close>

definition reject_then_null_client :: client where
  "reject_then_null_client =
     (\<lambda>h rq. if h = [] then Inl ''Request failed with status code 404'' else Inr JNull)"

text \<open>Two records and page information that carries no total.\<close>

definition no_total_client :: client where
  "no_total_client =
     (\<lambda>h rq. Inr (JObj [(''list'', JArr [JObj [(''Id'', JNum ''1'')], JObj [(''Id'', JNum ''2'')]]),
                         (''pageInfo'', JObj [(''page'', JNum ''1'')])]))"

text \<open>Two records out of fifty-seven.\<close>

definition paged_client :: client where
  "paged_client =
     (\<lambda>h rq. Inr (JObj [(''list'', JArr [JObj [(''Id'', JNum ''1'')], JObj [(''Id'', JNum ''2'')]]),
                         (''pageInfo'', JObj [(''totalRows'', JNum ''57'')])]))"

text \<open>The first call rejected, every later one answered with two records out of fifty-seven.\<close>

definition reject_then_paged_client :: client where
  "reject_then_paged_client =
     (\<lambda>h rq. if h = [] then Inl ''Request failed with status code 404'' else paged_client h rq)"

text \<open>The first call rejected with one message, every later one with another.\<close>

definition twice_failing_client :: client where
  "twice_failing_client = (\<lambda>h rq. if h = [] then Inl ''A'' else Inl ''B'')"


text \<open>An answer whose total is an object with a \<^verbatim>\<open>toString\<close> of its own.\<close>

definition unwritable_total :: jsval where
  "unwritable_total =
     JObj [(''list'', JArr []),
           (''pageInfo'', JObj [(''totalRows'', JObj [(''toString'', JNum ''1'')])])]"

definition unwritable_total_client :: client where
  "unwritable_total_client = (\<lambda>h rq. Inr unwritable_total)"

definition reject_then_unwritable_client :: client where
  "reject_then_unwritable_client =
     (\<lambda>h rq. if h = [] then Inl ''Request failed with status code 404''
              else Inr unwritable_total)"


definition orders_args :: jsval where
  "orders_args = JObj [(''tableName'', JStr ''orders'')]"

text \<open>The two requests for the table \<^verbatim>\<open>orders\<close> under the example configuration.\<close>

definition orders_primary :: request where
  "orders_primary =
     \<lparr>http_method = GET, url = ''/api/v2/tables/orders/records'',
      params = [(''limit'', JNum ''100''), (''baseId'', JStr ''b1'')], body = JUndefined\<rparr>"

definition orders_secondary :: request where
  "orders_secondary =
     \<lparr>http_method = GET, url = ''/api/v2/bases/b1/tables/orders/records'',
      params = [(''limit'', JNum ''100'')], body = JUndefined\<rparr>"

definition two_columns :: "jsval list" where
  "two_columns =
     [JObj [(''column_name'', JStr ''id''), (''column_type'', JStr ''Number''),
            (''is_primary'', JBool True)],
      JObj [(''column_name'', JStr ''name''), (''column_type'', JStr ''SingleLineText'')]]"

definition create_table_args :: jsval where
  "create_table_args =
     JObj [(''projectId'', JStr ''p1''), (''tableName'', JStr ''T''),
           (''columns'', JArr two_columns)]"

definition filtered_args :: jsval where
  "filtered_args =
     JObj [(''projectId'', JStr ''p1''), (''tableName'', JStr ''orders''),
           (''filters'', JObj [(''price'', JNum ''9.99'')])]"

definition unfiltered_args :: jsval where
  "unfiltered_args =
     JObj [(''projectId'', JStr ''p1''), (''tableName'', JStr ''orders''),
           (''filters'', JObj []), (''limit'', JNum ''5'')]"

section \<open>Properties\<close>

lemmas action_defs = ret_def throw_def lift_def bind_def try_catch_def http_def

lemma try_catch_rethrow: "try_catch m (\<lambda>error. throw error) = m"
  by (auto simp: try_catch_def throw_def fun_eq_iff split: prod.splits sum.splits)

lemma get_prop_not_nullish: "get_prop v k = JStr s \<Longrightarrow> \<not> nullish v"
  by (cases v) auto


subsection \<open>Unknown tool names\<close>

text \<open>
  Claim C7. For a name outside the nine that the switch knows, the tool-call handler throws
  an \<^verbatim>\<open>McpError\<close> with the code \<^verbatim>\<open>MethodNotFound\<close> and the message
  \<^verbatim>\<open>Unknown tool: \<close> followed by the name. The error leaves the handler as a thrown
  error, not as a result, and the list of HTTP calls is what it was before: no method of the
  class ran and no request was sent.
\<close>

theorem callTool_unknown_tool:
  assumes "toolName \<notin> set tool_names"
  shows "callTool cfg c toolName arguments tr
           = (Inl (McpError MethodNotFound (''Unknown tool: '' @ toolName)), tr)"
  using assms by (simp add: callTool_def tool_names_def action_defs)

theorem callTool_unknown_tool_witness:
  "''drop_table'' \<notin> set tool_names
   \<and> callTool example_config unreachable_client ''drop_table'' (JObj []) []
       = (Inl (McpError MethodNotFound ''Unknown tool: drop_table''), [])"
  using callTool_unknown_tool [of "''drop_table''" example_config unreachable_client "JObj []" "[]"]
  by (simp add: tool_names_def)

subsection \<open>The second entry point\<close>

text \<open>
  Claim C10. \<^verbatim>\<open>executeCommand\<close> routes on the \<^verbatim>\<open>action\<close> of its command. For the
  actions \<^verbatim>\<open>create_project\<close> and \<^verbatim>\<open>create_table\<close>, both of them names of tools, it
  throws the error \<^verbatim>\<open>Comando desconhecido\<close> with the action and sends no request. For
  each of the other seven tool names it runs that tool's method on the command's
  \<^verbatim>\<open>params\<close>.
\<close>

theorem executeCommand_uncovered:
  assumes "get_prop comando ''action'' = JStr action"
  shows "(action = ''create_project'' \<or> action = ''create_table''
            \<longrightarrow> action \<in> set tool_names
              \<and> executeCommand cfg c comando tr
                  = (Inl (Error (''Comando desconhecido: '' @ action)), tr))
       \<and> (action \<in> set tool_names \<and> action \<noteq> ''create_project'' \<and> action \<noteq> ''create_table''
            \<longrightarrow> (\<exists>h. handler cfg c action = Some h
                      \<and> executeCommand cfg c comando = h (get_prop comando ''params'')))"
proof -
  have live: "\<not> nullish comando"
    using assms by (rule get_prop_not_nullish)
  have run: "executeCommand cfg c comando =
      (if action = ''list_projects'' then listProjects c
       else if action = ''list_tables'' then listTables c (get_prop comando ''params'')
       else if action = ''query_table'' then queryTable c (get_prop comando ''params'')
       else if action = ''insert_record'' then insertRecord c (get_prop comando ''params'')
       else if action = ''update_record'' then updateRecord c (get_prop comando ''params'')
       else if action = ''delete_record'' then deleteRecord c (get_prop comando ''params'')
       else if action = ''query_table_by_name''
         then queryTableByName cfg c (get_prop comando ''params'')
       else throw (Error (''Comando desconhecido: '' @ action)))"
    using live assms
    by (simp add: executeCommand_def try_catch_rethrow member_def lift_def bind_def fun_eq_iff)
  show ?thesis
    unfolding run by (auto simp: tool_names_def handler_def throw_def)
qed

theorem executeCommand_uncovered_witness:
  "executeCommand example_config empty_object_client
      (JObj [(''action'', JStr ''create_table''), (''params'', create_table_args)]) []
     = (Inl (Error ''Comando desconhecido: create_table''), [])
   \<and> executeCommand example_config empty_object_client
        (JObj [(''action'', JStr ''delete_record''), (''params'', JObj [])])
     = deleteRecord empty_object_client (JObj [])"
  using executeCommand_uncovered [of "JObj [(''action'', JStr ''create_table''), (''params'', create_table_args)]"
      "''create_table''" example_config empty_object_client "[]"]
    executeCommand_uncovered [of "JObj [(''action'', JStr ''delete_record''), (''params'', JObj [])]"
      "''delete_record''" example_config empty_object_client "[]"]
  by (simp add: tool_names_def handler_def)

subsection \<open>Handlers that make one call\<close>


text \<open>The same, when writing the request may throw.\<close>

lemma built_call:
  "try_catch (bind (lift b) (\<lambda>rq. bind (http c rq) (\<lambda>data. ret (f data))))
             (\<lambda>error. throw (Error (p @ message error))) tr
     = (case b of
          Inl e \<Rightarrow> (Inl (Error (p @ message e)), tr)
        | Inr rq \<Rightarrow>
            (case c tr rq of Inl m \<Rightarrow> Inl (Error (p @ m)) | Inr data \<Rightarrow> Inr (f data),
             tr @ [rq]))"
  by (simp add: action_defs split: sum.splits)

lemma destructuring_apply:
  "bind (lift (destructuring args k)) (\<lambda>_. act) tr =
     (if nullish args
      then (Inl (TypeError (''Cannot destructure property '' @ apostrophe @ k @ apostrophe
                            @ '' of '' @ apostrophe @ ''args'' @ apostrophe @ '' as it is ''
                            @ nullish_name args @ ''.'')), tr)
      else act tr)"
  by (simp add: destructuring_def lift_def bind_def)




lemma queryTable_apply:
  "\<not> nullish args \<Longrightarrow> queryTable c args tr =
     (case queryTable_call args of
        Inl e \<Rightarrow> (Inl (Error (''Failed to query table: '' @ message e)), tr)
      | Inr rq \<Rightarrow>
          (case c tr rq of
             Inl m \<Rightarrow> Inl (Error (''Failed to query table: '' @ m))
           | Inr data \<Rightarrow> Inr (text_result (JSON_stringify 2 data)),
           tr @ [rq]))"
  unfolding queryTable_def destructuring_apply
  by (simp only: built_call if_False)



lemma deleteRecord_apply:
  "\<not> nullish args \<Longrightarrow> deleteRecord c args tr =
     (case deleteRecord_call args of
        Inl e \<Rightarrow> (Inl (Error (''Failed to delete record: '' @ message e)), tr)
      | Inr rq \<Rightarrow>
          (case c tr rq of
             Inl m \<Rightarrow> Inl (Error (''Failed to delete record: '' @ m))
           | Inr data \<Rightarrow> Inr (text_result (Some ''Record deleted successfully.'')),
           tr @ [rq]))"
  unfolding deleteRecord_def destructuring_apply
  by (simp only: built_call if_False)

subsection \<open>Deleting a record\<close>

text \<open>
  Claim C9. With \<^verbatim>\<open>projectId\<close>, \<^verbatim>\<open>tableName\<close> and \<^verbatim>\<open>recordId\<close> in the arguments,
  each written into the path as the text \<open>p\<close>, \<open>t\<close>, \<open>r\<close> that JavaScript gives it,
  and the remote service answering the call, \<^verbatim>\<open>deleteRecord\<close> sends exactly one request,
  a DELETE to the path of the record, and returns a result that is not flagged as an error and
  whose one text block is the sentence \<^verbatim>\<open>Record deleted successfully.\<close>, whatever the
  response carried. The tool-call handler returns the same.
\<close>

theorem deleteRecord_success:
  assumes "map_of kvs ''projectId'' = Some projectId"
    and "map_of kvs ''tableName'' = Some tableName"
    and "map_of kvs ''recordId'' = Some recordId"
    and "js_toString projectId = Inr p"
    and "js_toString tableName = Inr t"
    and "js_toString recordId = Inr r"
    and "c tr \<lparr>http_method = DELETE,
               url = ''/api/v1/db/data/noco/'' @ p @ ''/'' @ t @ ''/'' @ r,
               params = [], body = JUndefined\<rparr> = Inr response_data"
  shows "deleteRecord c (JObj kvs) tr
           = (Inr \<lparr>content = [\<lparr>type = ''text'', text' = Some ''Record deleted successfully.''\<rparr>],
                   isError = False\<rparr>,
              tr @ [\<lparr>http_method = DELETE,
                     url = ''/api/v1/db/data/noco/'' @ p @ ''/'' @ t @ ''/'' @ r,
                     params = [], body = JUndefined\<rparr>])
       \<and> callTool cfg c ''delete_record'' (JObj kvs) tr = deleteRecord c (JObj kvs) tr"
proof -
  have live: "\<not> nullish (JObj kvs)"
    by simp
  have built: "deleteRecord_call (JObj kvs)
                 = Inr \<lparr>http_method = DELETE,
                        url = ''/api/v1/db/data/noco/'' @ p @ ''/'' @ t @ ''/'' @ r,
                        params = [], body = JUndefined\<rparr>"
    using assms(1-6) by (simp add: deleteRecord_call_def and_then_def)
  have run: "deleteRecord c (JObj kvs) tr
           = (Inr \<lparr>content = [\<lparr>type = ''text'', text' = Some ''Record deleted successfully.''\<rparr>],
                   isError = False\<rparr>,
              tr @ [\<lparr>http_method = DELETE,
                     url = ''/api/v1/db/data/noco/'' @ p @ ''/'' @ t @ ''/'' @ r,
                     params = [], body = JUndefined\<rparr>])"
    unfolding deleteRecord_apply [OF live] built using assms(7)
    by (simp add: text_result_def)
  have same: "callTool cfg c ''delete_record'' (JObj kvs) tr = deleteRecord c (JObj kvs) tr"
    unfolding run by (simp add: callTool_def try_catch_def run)
  from run same show ?thesis
    by (rule conjI)
qed

theorem deleteRecord_success_witness:
  "deleteRecord empty_object_client
      (JObj [(''projectId'', JStr ''p1''), (''tableName'', JStr ''orders''),
             (''recordId'', JNum ''1e+21'')]) []
     = (Inr \<lparr>content = [\<lparr>type = ''text'', text' = Some ''Record deleted successfully.''\<rparr>],
             isError = False\<rparr>,
        [\<lparr>http_method = DELETE, url = ''/api/v1/db/data/noco/p1/orders/1e+21'',
          params = [], body = JUndefined\<rparr>])"
  using deleteRecord_success [of "[(''projectId'', JStr ''p1''), (''tableName'', JStr ''orders''),
        (''recordId'', JNum ''1e+21'')]"
      "JStr ''p1''" "JStr ''orders''" "JNum ''1e+21''" "''p1''" "''orders''" "''1e+21''"
      empty_object_client "[]" "JObj []" example_config]
  by (simp add: empty_object_client_def)

subsection \<open>Querying a table by its name\<close>

lemma countSummary_apply:
  assumes "\<not> nullish data"
  shows "countSummary tableName data tr =
     (case summary_text tableName data of
        Inl e \<Rightarrow> Inl e
      | Inr t \<Rightarrow> Inr \<lparr>content = [\<lparr>type = ''text'', text' = Some t\<rparr>], isError = False\<rparr>,
      tr)"
  using assms
  unfolding countSummary_def member_def lift_def bind_def ret_def text_result_def
  by (simp split: sum.splits)

lemma countSummary_nullish:
  assumes "nullish data"
  shows "countSummary tableName data tr =
     (Inl (TypeError (''Cannot read properties of '' @ nullish_name data @ '' (reading ''
                      @ apostrophe @ ''list'' @ apostrophe @ '')'')), tr)"
  using assms
  unfolding countSummary_def member_def lift_def bind_def ret_def text_result_def
  by simp

lemma queryTableByName_apply:
  "\<not> nullish args \<Longrightarrow> queryTableByName cfg c args tr =
     (case (case primary_request cfg args of
              Inl e \<Rightarrow> (Inl e, tr)
            | Inr rq \<Rightarrow>
                (case c tr rq of
                   Inl m \<Rightarrow> (Inl (AxiosError m), tr @ [rq])
                 | Inr data \<Rightarrow> countSummary (get_prop args ''tableName'') data (tr @ [rq]))) of
        (Inr r, tr1) \<Rightarrow> (Inr r, tr1)
      | (Inl error, tr1) \<Rightarrow>
          (case (case secondary_request cfg args of
                   Inl e \<Rightarrow> (Inl e, tr1)
                 | Inr rq \<Rightarrow>
                     (case c tr1 rq of
                        Inl m \<Rightarrow> (Inl (AxiosError m), tr1 @ [rq])
                      | Inr data \<Rightarrow>
                          countSummary (get_prop args ''tableName'') data (tr1 @ [rq]))) of
             (Inr r, tr2) \<Rightarrow> (Inr r, tr2)
           | (Inl alternativeError, tr2) \<Rightarrow>
               (Inl (Error (''Failed to query table by name: '' @ message error
                            @ ''. Alternative approach also failed: ''
                            @ message alternativeError)), tr2)))"
  unfolding queryTableByName_def destructuring_apply
  by (simp add: action_defs split: sum.splits prod.splits)

text \<open>
  Claim C3. When the remote service rejects the first request of \<^verbatim>\<open>queryTableByName\<close>
  with the message \<open>A\<close> and the second with the message \<open>B\<close>, the method throws one
  error, whose message holds \<open>A\<close> and then \<open>B\<close>; both requests were sent, in that
  order. The tool-call handler turns that error into one result flagged as an error, with the
  same message in its text.
\<close>

theorem queryTableByName_both_fail:
  assumes "primary_request cfg (JObj kvs) = Inr primary"
    and "secondary_request cfg (JObj kvs) = Inr secondary"
    and "c tr primary = Inl A"
    and "c (tr @ [primary]) secondary = Inl B"
  shows "queryTableByName cfg c (JObj kvs) tr
           = (Inl (Error (''Failed to query table by name: '' @ A
                          @ ''. Alternative approach also failed: '' @ B)),
              tr @ [primary, secondary])
       \<and> callTool cfg c ''query_table_by_name'' (JObj kvs) tr
           = (Inr \<lparr>content = [\<lparr>type = ''text'',
                                text' = Some (''Error: Failed to query table by name: '' @ A
                                              @ ''. Alternative approach also failed: '' @ B)\<rparr>],
                   isError = True\<rparr>,
              tr @ [primary, secondary])"
proof -
  have live: "\<not> nullish (JObj kvs)"
    by simp
  have run: "queryTableByName cfg c (JObj kvs) tr
           = (Inl (Error (''Failed to query table by name: '' @ A
                          @ ''. Alternative approach also failed: '' @ B)),
              tr @ [primary, secondary])"
    unfolding queryTableByName_apply [OF live] assms(1,2) using assms(3,4)
    by simp
  have caught: "callTool cfg c ''query_table_by_name'' (JObj kvs) tr
           = (Inr \<lparr>content = [\<lparr>type = ''text'',
                                text' = Some (''Error: Failed to query table by name: '' @ A
                                              @ ''. Alternative approach also failed: '' @ B)\<rparr>],
                   isError = True\<rparr>,
              tr @ [primary, secondary])"
    by (simp add: callTool_def try_catch_def ret_def error_result_def run)
  from run caught show ?thesis
    by (rule conjI)
qed

theorem queryTableByName_both_fail_witness:
  "queryTableByName example_config twice_failing_client orders_args []
     = (Inl (Error ''Failed to query table by name: A. Alternative approach also failed: B''),
        [orders_primary, orders_secondary])"
proof -
  let ?kvs = "[(''tableName'', JStr ''orders'')]"
  have primary: "primary_request example_config (JObj ?kvs) = Inr orders_primary"
    by (simp add: primary_request_def and_then_def orders_primary_def example_config_def
          dflt_def string_value_def)
  have secondary: "secondary_request example_config (JObj ?kvs) = Inr orders_secondary"
    by (simp add: secondary_request_def and_then_def orders_secondary_def example_config_def
          dflt_def template_def)
  have first: "twice_failing_client [] orders_primary = Inl ''A''"
    by (simp add: twice_failing_client_def)
  have second: "twice_failing_client ([] @ [orders_primary]) orders_secondary = Inl ''B''"
    by (simp add: twice_failing_client_def)
  from queryTableByName_both_fail
         [where tr = "[]" and c = twice_failing_client and cfg = example_config,
          OF primary secondary first second]
  show ?thesis
    by (simp add: orders_args_def)
qed

subsection \<open>Querying a table by its name: the counts\<close>

text \<open>
  Claim C2, as the code has it. Take a first request of \<^verbatim>\<open>queryTableByName\<close> that the
  remote service answers with a body that is neither null nor undefined, and from which the
  two counts can be written as text, the total as \<open>total_text\<close> and the number of records as
  \<open>retrieved\<close>. The method then returns a result that is not flagged as an error, whose
  text reports these two, and sends no second request. The total is
  \<^verbatim>\<open>pageInfo.totalRows\<close> when the body has a truthy \<^verbatim>\<open>pageInfo\<close>, and the number
  of records otherwise; the number of records is the length of \<^verbatim>\<open>list\<close>, and 0 when
  \<^verbatim>\<open>list\<close> is absent.
\<close>

theorem queryTableByName_primary_success:
  assumes "primary_request cfg (JObj kvs) = Inr primary"
    and "c tr primary = Inr data"
    and "\<not> nullish data"
    and "js_toString (get_prop (JObj kvs) ''tableName'') = Inr name"
    and "js_toString (totalCount data) = Inr total_text"
    and "js_toString (recordCount data) = Inr retrieved"
  shows "queryTableByName cfg c (JObj kvs) tr
           = (Inr \<lparr>content = [\<lparr>type = ''text'',
                      text' = Some (''Table '' @ name @ '' contains '' @ total_text
                                    @ '' total records. Retrieved '' @ retrieved
                                    @ '' records.'')\<rparr>],
                   isError = False\<rparr>,
              tr @ [primary])
       \<and> (truthy (get_prop data ''pageInfo'')
             \<longrightarrow> totalCount data = get_prop (get_prop data ''pageInfo'') ''totalRows'')
       \<and> (\<not> truthy (get_prop data ''pageInfo'') \<longrightarrow> totalCount data = recordCount data)
       \<and> (\<forall>xs. get_prop data ''list'' = JArr xs \<longrightarrow> recordCount data = JNum (decimal (length xs)))
       \<and> (\<not> truthy (get_prop data ''list'') \<longrightarrow> recordCount data = JNum ''0'')"
proof -
  have live: "\<not> nullish (JObj kvs)"
    by simp
  have written: "summary_text (get_prop (JObj kvs) ''tableName'') data
                   = Inr (''Table '' @ name @ '' contains '' @ total_text
                          @ '' total records. Retrieved '' @ retrieved @ '' records.'')"
    unfolding summary_text_def assms(4,5,6) by (simp add: and_then_def)
  have run: "queryTableByName cfg c (JObj kvs) tr
           = (Inr \<lparr>content = [\<lparr>type = ''text'',
                      text' = Some (''Table '' @ name @ '' contains '' @ total_text
                                    @ '' total records. Retrieved '' @ retrieved
                                    @ '' records.'')\<rparr>],
                   isError = False\<rparr>,
              tr @ [primary])"
    unfolding queryTableByName_apply [OF live] assms(1)
    by (simp add: assms(2) countSummary_apply [OF assms(3)] written del: get_prop.simps)
  have total: "truthy (get_prop data ''pageInfo'')
                 \<longrightarrow> totalCount data = get_prop (get_prop data ''pageInfo'') ''totalRows''"
    and fallback: "\<not> truthy (get_prop data ''pageInfo'') \<longrightarrow> totalCount data = recordCount data"
    and counted: "\<forall>xs. get_prop data ''list'' = JArr xs
                    \<longrightarrow> recordCount data = JNum (decimal (length xs))"
    and zero: "\<not> truthy (get_prop data ''list'') \<longrightarrow> recordCount data = JNum ''0''"
    by (simp_all add: totalCount_def recordCount_def length_number_def)
  from run total fallback counted zero show ?thesis
    by (intro conjI)
qed

theorem queryTableByName_primary_success_witness:
  "queryTableByName example_config paged_client orders_args []
     = (Inr \<lparr>content = [\<lparr>type = ''text'',
                text' = Some ''Table orders contains 57 total records. Retrieved 2 records.''\<rparr>],
             isError = False\<rparr>,
        [orders_primary])"
proof -
  let ?data = "JObj [(''list'', JArr [JObj [(''Id'', JNum ''1'')], JObj [(''Id'', JNum ''2'')]]),
                     (''pageInfo'', JObj [(''totalRows'', JNum ''57'')])]"
  let ?kvs = "[(''tableName'', JStr ''orders'')]"
  have primary: "primary_request example_config (JObj ?kvs) = Inr orders_primary"
    by (simp add: primary_request_def and_then_def orders_primary_def example_config_def
          dflt_def string_value_def)
  have answer: "paged_client [] orders_primary = Inr ?data"
    by (simp add: paged_client_def)
  have present: "\<not> nullish ?data"
    by simp
  have name: "js_toString (get_prop (JObj ?kvs) ''tableName'') = Inr ''orders''"
    by simp
  have total: "js_toString (totalCount ?data) = Inr ''57''"
    by (simp add: totalCount_def)
  have retrieved: "js_toString (recordCount ?data) = Inr ''2''"
    by (simp add: recordCount_def length_number_def decimal.simps digit_char_def)
  from queryTableByName_primary_success
         [where tr = "[]" and c = paged_client, OF primary answer present name total retrieved]
  show ?thesis
    by (simp add: orders_args_def)
qed

text \<open>
  The claim as it was stated fails in three places. A first answer whose body is
  \<^verbatim>\<open>null\<close> makes the method go on to the second request; so does a first answer whose
  total cannot be written as text; and page information without \<^verbatim>\<open>totalRows\<close> makes
  the text say \<^verbatim>\<open>undefined\<close> where the length of the list was expected.
\<close>

theorem queryTableByName_primary_success_counterexample:
  "primary_request example_config orders_args = Inr orders_primary
   \<and> null_then_404_client [] orders_primary = Inr JNull
   \<and> snd (queryTableByName example_config null_then_404_client orders_args [])
       = [orders_primary, orders_secondary]
   \<and> unwritable_total_client [] orders_primary = Inr unwritable_total
   \<and> snd (queryTableByName example_config unwritable_total_client orders_args [])
       = [orders_primary, orders_secondary]
   \<and> no_total_client [] orders_primary
       = Inr (JObj [(''list'', JArr [JObj [(''Id'', JNum ''1'')], JObj [(''Id'', JNum ''2'')]]),
                    (''pageInfo'', JObj [(''page'', JNum ''1'')])])
   \<and> queryTableByName example_config no_total_client orders_args []
       = (Inr \<lparr>content = [\<lparr>type = ''text'',
                  text' = Some ''Table orders contains undefined total records. Retrieved 2 records.''\<rparr>],
               isError = False\<rparr>,
          [orders_primary])"
  by (simp add: orders_args_def queryTableByName_apply countSummary_apply countSummary_nullish
        null_then_404_client_def no_total_client_def unwritable_total_client_def
        unwritable_total_def decimal.simps digit_char_def
        primary_request_def secondary_request_def orders_primary_def orders_secondary_def
        example_config_def and_then_def dflt_def string_value_def template_def
        summary_text_def totalCount_def recordCount_def length_number_def not_primitive_def)

text \<open>
  Claim C8, as the code has it. When the remote service rejects the first request and answers
  the second with a body that is neither null nor undefined, and from which the two counts
  can be written as text, the method returns a result that is not flagged as an error, with
  the counts read from the second answer as they would have been read from the first.
\<close>

theorem queryTableByName_secondary_success:
  assumes "primary_request cfg (JObj kvs) = Inr primary"
    and "secondary_request cfg (JObj kvs) = Inr secondary"
    and "c tr primary = Inl A"
    and "c (tr @ [primary]) secondary = Inr data"
    and "\<not> nullish data"
    and "js_toString (get_prop (JObj kvs) ''tableName'') = Inr name"
    and "js_toString (totalCount data) = Inr total_text"
    and "js_toString (recordCount data) = Inr retrieved"
  shows "queryTableByName cfg c (JObj kvs) tr
           = (Inr \<lparr>content = [\<lparr>type = ''text'',
                      text' = Some (''Table '' @ name @ '' contains '' @ total_text
                                    @ '' total records. Retrieved '' @ retrieved
                                    @ '' records.'')\<rparr>],
                   isError = False\<rparr>,
              tr @ [primary, secondary])
       \<and> (truthy (get_prop data ''pageInfo'')
             \<longrightarrow> totalCount data = get_prop (get_prop data ''pageInfo'') ''totalRows'')
       \<and> (\<not> truthy (get_prop data ''pageInfo'') \<longrightarrow> totalCount data = recordCount data)
       \<and> (\<forall>xs. get_prop data ''list'' = JArr xs \<longrightarrow> recordCount data = JNum (decimal (length xs)))
       \<and> (\<not> truthy (get_prop data ''list'') \<longrightarrow> recordCount data = JNum ''0'')"
proof -
  have live: "\<not> nullish (JObj kvs)"
    by simp
  have written: "summary_text (get_prop (JObj kvs) ''tableName'') data
                   = Inr (''Table '' @ name @ '' contains '' @ total_text
                          @ '' total records. Retrieved '' @ retrieved @ '' records.'')"
    unfolding summary_text_def assms(6,7,8) by (simp add: and_then_def)
  have run: "queryTableByName cfg c (JObj kvs) tr
           = (Inr \<lparr>content = [\<lparr>type = ''text'',
                      text' = Some (''Table '' @ name @ '' contains '' @ total_text
                                    @ '' total records. Retrieved '' @ retrieved
                                    @ '' records.'')\<rparr>],
                   isError = False\<rparr>,
              tr @ [primary, secondary])"
    unfolding queryTableByName_apply [OF live] assms(1,2)
    by (simp add: assms(3,4) countSummary_apply [OF assms(5)] written del: get_prop.simps)
  have total: "truthy (get_prop data ''pageInfo'')
                 \<longrightarrow> totalCount data = get_prop (get_prop data ''pageInfo'') ''totalRows''"
    and fallback: "\<not> truthy (get_prop data ''pageInfo'') \<longrightarrow> totalCount data = recordCount data"
    and counted: "\<forall>xs. get_prop data ''list'' = JArr xs
                    \<longrightarrow> recordCount data = JNum (decimal (length xs))"
    and zero: "\<not> truthy (get_prop data ''list'') \<longrightarrow> recordCount data = JNum ''0''"
    by (simp_all add: totalCount_def recordCount_def length_number_def)
  from run total fallback counted zero show ?thesis
    by (intro conjI)
qed

theorem queryTableByName_secondary_success_witness:
  "queryTableByName example_config reject_then_paged_client orders_args []
     = (Inr \<lparr>content = [\<lparr>type = ''text'',
                text' = Some ''Table orders contains 57 total records. Retrieved 2 records.''\<rparr>],
             isError = False\<rparr>,
        [orders_primary, orders_secondary])"
proof -
  let ?data = "JObj [(''list'', JArr [JObj [(''Id'', JNum ''1'')], JObj [(''Id'', JNum ''2'')]]),
                     (''pageInfo'', JObj [(''totalRows'', JNum ''57'')])]"
  let ?kvs = "[(''tableName'', JStr ''orders'')]"
  have primary: "primary_request example_config (JObj ?kvs) = Inr orders_primary"
    by (simp add: primary_request_def and_then_def orders_primary_def example_config_def
          dflt_def string_value_def)
  have secondary: "secondary_request example_config (JObj ?kvs) = Inr orders_secondary"
    by (simp add: secondary_request_def and_then_def orders_secondary_def example_config_def
          dflt_def template_def)
  have rejected: "reject_then_paged_client [] orders_primary
                    = Inl ''Request failed with status code 404''"
    by (simp add: reject_then_paged_client_def)
  have answer: "reject_then_paged_client ([] @ [orders_primary]) orders_secondary = Inr ?data"
    by (simp add: reject_then_paged_client_def paged_client_def)
  have present: "\<not> nullish ?data"
    by simp
  have name: "js_toString (get_prop (JObj ?kvs) ''tableName'') = Inr ''orders''"
    by simp
  have total: "js_toString (totalCount ?data) = Inr ''57''"
    by (simp add: totalCount_def)
  have retrieved: "js_toString (recordCount ?data) = Inr ''2''"
    by (simp add: recordCount_def length_number_def decimal.simps digit_char_def)
  from queryTableByName_secondary_success
         [where tr = "[]" and c = reject_then_paged_client,
          OF primary secondary rejected answer present name total retrieved]
  show ?thesis
    by (simp add: orders_args_def)
qed

text \<open>
  The claim as it was stated fails when the second answer's body is \<^verbatim>\<open>null\<close>, and when
  its total cannot be written as text: the method then throws the error that joins both
  messages.
\<close>

theorem queryTableByName_secondary_success_counterexample:
  "reject_then_null_client [] orders_primary = Inl ''Request failed with status code 404''
   \<and> reject_then_null_client [orders_primary] orders_secondary = Inr JNull
   \<and> queryTableByName example_config reject_then_null_client orders_args []
       = (Inl (Error (''Failed to query table by name: Request failed with status code 404.''
                      @ '' Alternative approach also failed: Cannot read properties of null''
                      @ '' (reading '' @ apostrophe @ ''list'' @ apostrophe @ '')'')),
          [orders_primary, orders_secondary])
   \<and> reject_then_unwritable_client [] orders_primary
       = Inl ''Request failed with status code 404''
   \<and> reject_then_unwritable_client [orders_primary] orders_secondary = Inr unwritable_total
   \<and> queryTableByName example_config reject_then_unwritable_client orders_args []
       = (Inl (Error (''Failed to query table by name: Request failed with status code 404.''
                      @ '' Alternative approach also failed:''
                      @ '' Cannot convert object to primitive value'')),
          [orders_primary, orders_secondary])"
  by (simp add: orders_args_def queryTableByName_apply countSummary_apply countSummary_nullish
        reject_then_null_client_def reject_then_unwritable_client_def unwritable_total_def
        primary_request_def secondary_request_def orders_primary_def orders_secondary_def
        example_config_def and_then_def dflt_def string_value_def template_def nullish_name_def
        summary_text_def totalCount_def recordCount_def length_number_def not_primitive_def
        decimal.simps digit_char_def)

subsection \<open>Querying a table\<close>

lemma JSON_stringify_object: "JSON_stringify gap (JObj fs) \<noteq> None"
  by (simp add: JSON_stringify_def)

lemma queryTable_call_built:
  assumes "get_prop args ''filters'' = JUndefined \<and> fs = []
             \<or> get_prop args ''filters'' = JObj fs"
    and "js_toString (get_prop args ''projectId'') = Inr p"
    and "js_toString (get_prop args ''tableName'') = Inr t"
  shows "queryTable_call args
           = Inr \<lparr>http_method = GET,
                  url = ''/api/v1/db/data/noco/'' @ p @ ''/'' @ t,
                  params = [(''limit'', dflt (get_prop args ''limit'') (JNum ''100'')),
                            (''offset'', dflt (get_prop args ''offset'') (JNum ''0''))]
                           @ (if fs = [] then []
                              else [(''where'', string_value (JSON_stringify 0 (JObj fs)))]),
                  body = JUndefined\<rparr>"
proof -
  have "dflt (get_prop args ''filters'') (JObj []) = JObj fs"
    using assms(1) by (auto simp: dflt_def)
  then show ?thesis
    unfolding queryTable_call_def Let_def assms(2,3)
    by (simp add: and_then_def)
qed

lemma queryTable_trace:
  assumes "get_prop (JObj kvs) ''filters'' = JUndefined \<and> fs = []
             \<or> get_prop (JObj kvs) ''filters'' = JObj fs"
    and "js_toString (get_prop (JObj kvs) ''projectId'') = Inr p"
    and "js_toString (get_prop (JObj kvs) ''tableName'') = Inr t"
  shows "snd (queryTable c (JObj kvs) tr)
           = tr @ [\<lparr>http_method = GET,
                    url = ''/api/v1/db/data/noco/'' @ p @ ''/'' @ t,
                    params = [(''limit'', dflt (get_prop (JObj kvs) ''limit'') (JNum ''100'')),
                              (''offset'', dflt (get_prop (JObj kvs) ''offset'') (JNum ''0''))]
                             @ (if fs = [] then []
                                else [(''where'', string_value (JSON_stringify 0 (JObj fs)))]),
                    body = JUndefined\<rparr>]"
proof -
  have live: "\<not> nullish (JObj kvs)"
    by simp
  show ?thesis
    unfolding queryTable_apply [OF live] queryTable_call_built [OF assms]
    by simp
qed

text \<open>
  Claim C5. With the \<^verbatim>\<open>filters\<close> argument absent or an object, and the project and the
  table written into the path as the texts \<open>p\<close> and \<open>t\<close> that JavaScript gives them,
  \<^verbatim>\<open>queryTable\<close> sends exactly one request, a GET to the path of the table. When
  \<^verbatim>\<open>filters\<close> is absent or the empty object, the query parameters are \<^verbatim>\<open>limit\<close>
  and \<^verbatim>\<open>offset\<close> alone, with no \<^verbatim>\<open>where\<close>. When \<^verbatim>\<open>filters\<close> is a non-empty
  object, the parameters have a \<^verbatim>\<open>where\<close> as well, equal to the JSON text of the
  object. An absent \<^verbatim>\<open>limit\<close> is sent as 100 and an absent \<^verbatim>\<open>offset\<close> as 0; a
  given one is sent as it is.
\<close>

theorem queryTable_request:
  assumes "map_of kvs ''filters'' = None \<or> (\<exists>fs. map_of kvs ''filters'' = Some (JObj fs))"
    and "js_toString (get_prop (JObj kvs) ''projectId'') = Inr p"
    and "js_toString (get_prop (JObj kvs) ''tableName'') = Inr t"
  shows "\<exists>rq. snd (queryTable c (JObj kvs) tr) = tr @ [rq]
          \<and> http_method rq = GET
          \<and> url rq = ''/api/v1/db/data/noco/'' @ p @ ''/'' @ t
          \<and> (map_of kvs ''filters'' = None \<or> map_of kvs ''filters'' = Some (JObj [])
                \<longrightarrow> map fst (params rq) = [''limit'', ''offset''])
          \<and> (\<forall>fs. map_of kvs ''filters'' = Some (JObj fs) \<and> fs \<noteq> []
                \<longrightarrow> map fst (params rq) = [''limit'', ''offset'', ''where'']
                  \<and> (\<exists>s. JSON_stringify 0 (JObj fs) = Some s
                          \<and> map_of (params rq) ''where'' = Some (JStr s)))
          \<and> (map_of kvs ''limit'' = None \<longrightarrow> map_of (params rq) ''limit'' = Some (JNum ''100''))
          \<and> (map_of kvs ''offset'' = None \<longrightarrow> map_of (params rq) ''offset'' = Some (JNum ''0''))
          \<and> (\<forall>v. map_of kvs ''limit'' = Some v \<and> v \<noteq> JUndefined
                \<longrightarrow> map_of (params rq) ''limit'' = Some v)
          \<and> (\<forall>v. map_of kvs ''offset'' = Some v \<and> v \<noteq> JUndefined
                \<longrightarrow> map_of (params rq) ''offset'' = Some v)"
proof -
  obtain fs where fs: "get_prop (JObj kvs) ''filters'' = JUndefined \<and> fs = []
                        \<or> get_prop (JObj kvs) ''filters'' = JObj fs"
    and same: "\<And>gs. map_of kvs ''filters'' = Some (JObj gs) \<Longrightarrow> gs = fs"
    and none: "map_of kvs ''filters'' = None \<Longrightarrow> fs = []"
    using assms(1) by (cases "map_of kvs ''filters''") auto
  obtain s where s: "JSON_stringify 0 (JObj fs) = Some s"
    using JSON_stringify_object [of 0 fs] by blast
  let ?rq = "\<lparr>http_method = GET,
              url = ''/api/v1/db/data/noco/'' @ p @ ''/'' @ t,
              params = [(''limit'', dflt (get_prop (JObj kvs) ''limit'') (JNum ''100'')),
                        (''offset'', dflt (get_prop (JObj kvs) ''offset'') (JNum ''0''))]
                       @ (if fs = [] then [] else [(''where'', JStr s)]),
              body = JUndefined\<rparr>"
  have trace: "snd (queryTable c (JObj kvs) tr) = tr @ [?rq]"
    using queryTable_trace [OF fs assms(2,3), of c tr] s by (simp add: string_value_def)
  have empty: "map_of kvs ''filters'' = None \<or> map_of kvs ''filters'' = Some (JObj [])
                 \<longrightarrow> map fst (params ?rq) = [''limit'', ''offset'']"
    using same none by auto
  have nonempty: "\<forall>gs. map_of kvs ''filters'' = Some (JObj gs) \<and> gs \<noteq> []
        \<longrightarrow> map fst (params ?rq) = [''limit'', ''offset'', ''where'']
          \<and> (\<exists>s. JSON_stringify 0 (JObj gs) = Some s
                  \<and> map_of (params ?rq) ''where'' = Some (JStr s))"
    using same s by auto
  have limit: "map_of kvs ''limit'' = None \<longrightarrow> map_of (params ?rq) ''limit'' = Some (JNum ''100'')"
    by (simp add: dflt_def)
  have offset: "map_of kvs ''offset'' = None \<longrightarrow> map_of (params ?rq) ''offset'' = Some (JNum ''0'')"
    by (simp add: dflt_def)
  have limit': "\<forall>v. map_of kvs ''limit'' = Some v \<and> v \<noteq> JUndefined
                  \<longrightarrow> map_of (params ?rq) ''limit'' = Some v"
    by (simp add: dflt_def)
  have offset': "\<forall>v. map_of kvs ''offset'' = Some v \<and> v \<noteq> JUndefined
                  \<longrightarrow> map_of (params ?rq) ''offset'' = Some v"
    by (simp add: dflt_def)
  have "http_method ?rq = GET" and
    "url ?rq = ''/api/v1/db/data/noco/'' @ p @ ''/'' @ t"
    by simp_all
  with trace empty nonempty limit offset limit' offset' show ?thesis
    by (intro exI [of _ ?rq] conjI)
qed

theorem queryTable_request_witness:
  "length (snd (queryTable unreachable_client filtered_args [])) = 1
   \<and> url (last (snd (queryTable unreachable_client filtered_args [])))
       = ''/api/v1/db/data/noco/p1/orders''
   \<and> map fst (params (last (snd (queryTable unreachable_client filtered_args []))))
       = [''limit'', ''offset'', ''where'']
   \<and> map_of (params (last (snd (queryTable unreachable_client filtered_args [])))) ''limit''
       = Some (JNum ''100'')
   \<and> map_of (params (last (snd (queryTable unreachable_client filtered_args [])))) ''where''
       = Some (JStr (''{'' @ [CHR 0x22] @ ''price'' @ [CHR 0x22] @ '':9.99}''))
   \<and> length (snd (queryTable unreachable_client unfiltered_args [])) = 1
   \<and> map fst (params (last (snd (queryTable unreachable_client unfiltered_args []))))
       = [''limit'', ''offset'']
   \<and> map_of (params (last (snd (queryTable unreachable_client unfiltered_args [])))) ''limit''
       = Some (JNum ''5'')"
proof -
  let ?f = "[(''projectId'', JStr ''p1''), (''tableName'', JStr ''orders''),
             (''filters'', JObj [(''price'', JNum ''9.99'')])]"
  let ?u = "[(''projectId'', JStr ''p1''), (''tableName'', JStr ''orders''),
             (''filters'', JObj []), (''limit'', JNum ''5'')]"
  have serialised: "JSON_stringify 0 (JObj [(''price'', JNum ''9.99'')])
                = Some (''{'' @ [CHR 0x22] @ ''price'' @ [CHR 0x22] @ '':9.99}'')"
    by (simp add: JSON_stringify_def json_wrap_def json_quote_def json_escape_def
          json_number_def)
  have filters: "map_of ?f ''filters'' = None \<or> (\<exists>fs. map_of ?f ''filters'' = Some (JObj fs))"
    by simp
  have project: "js_toString (get_prop (JObj ?f) ''projectId'') = Inr ''p1''"
    by simp
  have table: "js_toString (get_prop (JObj ?f) ''tableName'') = Inr ''orders''"
    by simp
  from queryTable_request [OF filters project table, of unreachable_client "[]"]
  obtain rq where rq: "snd (queryTable unreachable_client (JObj ?f) []) = [rq]"
    and path: "url rq = ''/api/v1/db/data/noco/p1/orders''"
    and keys: "map fst (params rq) = [''limit'', ''offset'', ''where'']"
    and limit: "map_of (params rq) ''limit'' = Some (JNum ''100'')"
    and filter: "\<exists>s. JSON_stringify 0 (JObj [(''price'', JNum ''9.99'')]) = Some s
                     \<and> map_of (params rq) ''where'' = Some (JStr s)"
    by auto
  have filters': "map_of ?u ''filters'' = None \<or> (\<exists>fs. map_of ?u ''filters'' = Some (JObj fs))"
    by simp
  have project': "js_toString (get_prop (JObj ?u) ''projectId'') = Inr ''p1''"
    by simp
  have table': "js_toString (get_prop (JObj ?u) ''tableName'') = Inr ''orders''"
    by simp
  from queryTable_request [OF filters' project' table', of unreachable_client "[]"]
  obtain rq' where rq': "snd (queryTable unreachable_client (JObj ?u) []) = [rq']"
    and keys': "map fst (params rq') = [''limit'', ''offset'']"
    and limit': "map_of (params rq') ''limit'' = Some (JNum ''5'')"
    by auto
  from rq path keys limit filter serialised rq' keys' limit' show ?thesis
    by (simp add: filtered_args_def unfiltered_args_def)
qed

subsection \<open>Creating a table\<close>







subsection \<open>A rejected call\<close>











subsection \<open>The loop over the columns, with a call rejected\<close>





subsection \<open>What a handler can throw\<close>












subsection \<open>The switch\<close>








subsection \<open>Remote failures\<close>




subsection \<open>The first call\<close>












subsection \<open>An omitted argument in the first request\<close>





















subsection \<open>Columns left out, and a first request that cannot be written\<close>




subsection \<open>Required arguments\<close>




end
